theory Spec2Isabelle
  imports Main "HOL-Library.Multiset"
begin

section \<open>The symptom checker quiz engine (class SymptomChecker)\<close>

text \<open>
  A shallow embedding of the quiz engine of src/unnamed/part_000 (class SymptomChecker).
  Every method becomes a function on an explicit engine record. A method that can end
  by an exception returns an \<open>outcome\<close>: JavaScript keeps the mutations made before
  the exception, so both constructors carry the engine as the call left it.

  The page (HTML) and quiz-data.json are not part of the sources. The document is a
  parameter \<open>page\<close> of every method that touches it: it records which of the elements
  the engine looks up exist at the time of the call. The quiz document is typed as the
  engine reads it; every top-level field the engine dereferences may be absent.

  A JavaScript number is a double. Every number the engine computes with is the
  result of parseInt, of adding such results, or of subtracting 1 from one: an
  integer that a double represents, an infinity or NaN. \<open>number\<close> holds these,
  and every sum is rounded to the nearest double, ties to even, as the machine does
  (\<open>round_double\<close>). The sign of zero is never observed by the engine (a zero weight
  is replaced by the literal 0, a zero total starts from the literal 0, and -0 - 1 is
  -1), so there is one zero. A string is a list of code units below 256.
\<close>

subsection \<open>JavaScript values: parseInt and the || operator\<close>

datatype number = NaN | Num int | PosInf | NegInf

fun bit_length :: "nat \<Rightarrow> nat" where
  "bit_length n = (if n = 0 then 0 else Suc (bit_length (n div 2)))"

declare bit_length.simps [simp del]

definition round_double :: "int \<Rightarrow> number" where
  \<comment> \<open>the double nearest to an integer: 53 significant bits, ties to even, overflow to
      an infinity from \<open>2 ^ 1024\<close> on\<close>
  "round_double x =
     (let m = nat \<bar>x\<bar>; e = bit_length m in
      if e \<le> 53 then Num x
      else
        let q = 2 ^ (e - 53);
            lo = m div q;
            r = m mod q;
            k = (if q < 2 * r \<or> (2 * r = q \<and> odd lo) then lo + 1 else lo)
        in if 2 ^ 1024 \<le> k * q then (if x < 0 then NegInf else PosInf)
           else Num (if x < 0 then - int (k * q) else int (k * q)))"

fun js_add :: "number \<Rightarrow> number \<Rightarrow> number" where
  "js_add NaN b = NaN"
| "js_add a NaN = NaN"
| "js_add (Num x) (Num y) = round_double (x + y)"
| "js_add PosInf NegInf = NaN"
| "js_add NegInf PosInf = NaN"
| "js_add PosInf b = PosInf"
| "js_add a PosInf = PosInf"
| "js_add NegInf b = NegInf"
| "js_add a NegInf = NegInf"

fun js_le :: "number \<Rightarrow> int \<Rightarrow> bool" where
  \<comment> \<open>a <= m for a finite m\<close>
  "js_le NaN m = False"
| "js_le (Num x) m = (x \<le> m)"
| "js_le PosInf m = False"
| "js_le NegInf m = True"

definition dataset_string :: "string option \<Rightarrow> string" where
  \<comment> \<open>ToString of a dataset entry: a missing attribute reads as undefined\<close>
  "dataset_string a = (case a of None \<Rightarrow> ''undefined'' | Some v \<Rightarrow> v)"

definition is_space :: "char \<Rightarrow> bool" where
  \<comment> \<open>the white space and line terminators among the code units below 256\<close>
  "is_space c = (c \<in> set [CHR 0x09, CHR 0x0A, CHR 0x0B, CHR 0x0C, CHR 0x0D, CHR '' '', CHR 0xA0])"

definition digit_of :: "char \<Rightarrow> nat option" where
  "digit_of c =
     (let n = (of_char c :: nat) in
      if 48 \<le> n \<and> n \<le> 57 then Some (n - 48)
      else if 97 \<le> n \<and> n \<le> 122 then Some (n - 87)
      else if 65 \<le> n \<and> n \<le> 90 then Some (n - 55)
      else None)"

definition is_digit :: "nat \<Rightarrow> char \<Rightarrow> bool" where
  "is_digit R c = (case digit_of c of None \<Rightarrow> False | Some d \<Rightarrow> d < R)"

definition digits_value :: "nat \<Rightarrow> string \<Rightarrow> nat" where
  "digits_value R Z = foldl (\<lambda>acc c. acc * R + (case digit_of c of None \<Rightarrow> 0 | Some d \<Rightarrow> d)) 0 Z"

definition has_hex_prefix :: "string \<Rightarrow> bool" where
  "has_hex_prefix S =
     (case S of
        a # b # _ \<Rightarrow> a = CHR ''0'' \<and> (b = CHR ''x'' \<or> b = CHR ''X'')
      | _ \<Rightarrow> False)"

definition parseInt :: "string \<Rightarrow> number" where
  \<comment> \<open>parseInt(string) with no radix argument, as ECMAScript defines it; the digits are
      taken at their exact value (the standard lets an implementation drop decimal
      digits after the 20th)\<close>
  "parseInt inputString =
     (let S = dropWhile is_space inputString;
          sign = (case S of c # _ \<Rightarrow> (if c = CHR ''-'' then - 1 else 1) | [] \<Rightarrow> (1::int));
          S1 = (case S of c # cs \<Rightarrow> (if c = CHR ''+'' \<or> c = CHR ''-'' then cs else S) | [] \<Rightarrow> S);
          R = (if has_hex_prefix S1 then 16 else 10);
          S2 = (if has_hex_prefix S1 then drop 2 S1 else S1);
          Z = takeWhile (is_digit R) S2
      in if Z = [] then NaN else round_double (sign * int (digits_value R Z)))"

definition or_else :: "number \<Rightarrow> number \<Rightarrow> number" where
  \<comment> \<open>a || b on numbers: NaN and 0 are falsy\<close>
  "or_else a b = (if a = NaN \<or> a = Num 0 then b else a)"

definition or_zero :: "number \<Rightarrow> number" where
  \<comment> \<open>a || 0\<close>
  "or_zero a = or_else a (Num 0)"

subsection \<open>The quiz document (quiz-data.json)\<close>

datatype risk = Low | Moderate | High

record bucket =
  b_max :: int
  b_level :: string
  b_color :: string

record scoring =
  low :: "bucket option"
  moderate :: "bucket option"
  high :: "bucket option"

record answer_option =
  opt_value :: string
  opt_weight :: "string option"
  opt_text :: "string option"

record question =
  q_type :: "string option"
  q_options :: "answer_option list option"

record quiz_doc =
  questions :: "question list option"
  scoring :: "scoring option"
  recommendations :: "(risk \<Rightarrow> string list option) option"
  autoAdvance :: "bool option"
  maxScore :: "int option"

datatype json = JNull | JPrimitive bool | JObject quiz_doc

text \<open>
  A parsed document, and what \<open>this.quizData\<close> holds: null, an object with the fields
  it has (an array is an object with none of them), or a number, string or boolean,
  of which only the truthiness matters: reading a property of it gives undefined.
\<close>

definition truthy :: "json \<Rightarrow> bool" where
  "truthy j = (case j of JNull \<Rightarrow> False | JPrimitive t \<Rightarrow> t | JObject d \<Rightarrow> True)"

definition fields_of :: "json \<Rightarrow> quiz_doc option" where
  \<comment> \<open>the value as property reads see it; None when a property read is a TypeError\<close>
  "fields_of j =
     (case j of
        JNull \<Rightarrow> None
      | JPrimitive t \<Rightarrow> Some \<lparr>questions = None, scoring = None, recommendations = None,
                              autoAdvance = None, maxScore = None\<rparr>
      | JObject d \<Rightarrow> Some d)"

definition bucket_of :: "scoring \<Rightarrow> risk \<Rightarrow> bucket option" where
  \<comment> \<open>scoring[level]\<close>
  "bucket_of sc l = (case l of Low \<Rightarrow> low sc | Moderate \<Rightarrow> moderate sc | High \<Rightarrow> high sc)"

subsection \<open>The engine\<close>

record answer =
  ans_value :: "string option"
  ans_weight :: number
  ans_text :: "string option"

datatype announcement =
    Selected "string option"
  | Selected_scale "string option"
  | Quiz_completed risk number
  | Quiz_restarted

datatype effect =
    TrackEvent_quiz_completed string number risk nat
  | Announce announcement
  | ShowError

record engine =
  toolName :: string
  quizData :: json
  currentQuestion :: int
  answers :: "(number \<times> answer) list"
  totalScore :: number
  isQuizCompleted :: bool
  listening :: bool
  timers :: nat
  effects :: "effect list"

text \<open>
  \<open>answers\<close> is the object \<open>this.answers\<close>: its own properties in insertion order,
  keyed by the number the property name was made from. \<open>currentQuestion\<close> is only
  ever 0 or the result of adding or subtracting 1 within the bounds of the questions
  array, so it is kept as an exact integer.
  \<open>listening\<close> says that setupEventListeners has run, \<open>timers\<close> counts the pending
  auto-advance callbacks (setTimeout is never paired with clearTimeout, and all
  callbacks are the same closure over \<open>this\<close>), \<open>effects\<close> lists the calls made to
  the collaborators: the tracker of main.js, the screen reader announcer, the error
  screen.
\<close>

record page =
  has_quiz_container :: bool
  has_results_section :: bool
  has_next_btn :: bool
  has_quiz_content :: bool
  has_question_element :: "int \<Rightarrow> bool"
  has_risk_level :: bool
  has_score_circle :: bool
  has_tracker :: bool

record button =
  question_attr :: "string option option"
  data_value :: "string option"
  data_weight :: "string option"
  text_content :: "string option"

text \<open>
  A button as the selection handlers read it: \<open>question_attr\<close> is \<open>None\<close> when
  \<open>closest('.question')\<close> finds nothing, otherwise the data-question attribute of the
  enclosing question element; \<open>text_content\<close> is the textContent of the button's
  \<open>.text\<close> child, when it has one.
\<close>

datatype outcome = Returned engine | Threw engine

fun state_of :: "outcome \<Rightarrow> engine" where
  "state_of (Returned s) = s"
| "state_of (Threw s) = s"

fun returned :: "outcome \<Rightarrow> bool" where
  "returned (Returned s) = True"
| "returned (Threw s) = False"

definition new_SymptomChecker :: "string \<Rightarrow> engine" where
  \<comment> \<open>the constructor, before it calls init\<close>
  "new_SymptomChecker tool =
     \<lparr>toolName = tool, quizData = JNull, currentQuestion = 0, answers = [], totalScore = Num 0,
      isQuizCompleted = False, listening = False, timers = 0, effects = []\<rparr>"

definition announceToScreenReader :: "announcement \<Rightarrow> engine \<Rightarrow> engine" where
  "announceToScreenReader m s = s\<lparr>effects := effects s @ [Announce m]\<rparr>"

subsubsection \<open>The answers object\<close>

fun assign :: "(number \<times> answer) list \<Rightarrow> number \<Rightarrow> answer \<Rightarrow> (number \<times> answer) list" where
  "assign [] k a = [(k, a)]"
| "assign ((k', a') # kvs) k a = (if k' = k then (k, a) # kvs else (k', a') # assign kvs k a)"

definition hasOwnProperty :: "(number \<times> answer) list \<Rightarrow> number \<Rightarrow> bool" where
  "hasOwnProperty kvs k = (map_of kvs k \<noteq> None)"

definition is_array_index :: "number \<Rightarrow> bool" where
  "is_array_index k = (case k of Num n \<Rightarrow> 0 \<le> n \<and> n < 4294967295 | _ \<Rightarrow> False)"

definition index_of_key :: "number \<Rightarrow> int" where
  "index_of_key k = (case k of Num n \<Rightarrow> n | _ \<Rightarrow> 0)"

definition Object_values :: "(number \<times> answer) list \<Rightarrow> answer list" where
  \<comment> \<open>own property order: array indices ascending, then the other keys as inserted\<close>
  "Object_values kvs =
     map snd (sort_key (\<lambda>kv. index_of_key (fst kv)) (filter (\<lambda>kv. is_array_index (fst kv)) kvs))
     @ map snd (filter (\<lambda>kv. \<not> is_array_index (fst kv)) kvs)"

subsubsection \<open>Loading\<close>

datatype js_error = Error string | SyntaxError | TypeError

record response =
  ok :: bool
  status :: string
  body :: "json option"

text \<open>
  The outcome of \<open>fetch('./quiz-data.json')\<close> is \<open>None\<close> when the promise rejects.
  \<open>status\<close> is the response status as the template string prints it, \<open>body\<close> is
  \<open>None\<close> when \<open>response.json()\<close> rejects.
\<close>

definition loadQuizData :: "response option \<Rightarrow> engine \<Rightarrow> js_error option \<times> engine" where
  "loadQuizData fetched s =
     (case fetched of
        None \<Rightarrow> (Some TypeError, s)
      | Some r \<Rightarrow>
          if \<not> ok r then (Some (Error (''HTTP error! status: '' @ status r)), s)
          else (case body r of
                  None \<Rightarrow> (Some SyntaxError, s)
                | Some j \<Rightarrow>
                    let s1 = s\<lparr>quizData := j\<rparr> in
                    if \<not> truthy (quizData s1)
                    then (Some (Error ''Invalid quiz data structure''), s1)
                    else (case fields_of (quizData s1) of
                            None \<Rightarrow> (Some (Error ''Invalid quiz data structure''), s1)
                          | Some d \<Rightarrow>
                              (case questions d of
                                 None \<Rightarrow> (Some (Error ''Invalid quiz data structure''), s1)
                               | Some qs \<Rightarrow>
                                   if length qs = 0
                                   then (Some (Error ''Invalid quiz data structure''), s1)
                                   else (None, s1)))))"

subsubsection \<open>Rendering\<close>

definition canProceed :: "engine \<Rightarrow> bool" where
  "canProceed s = hasOwnProperty (answers s) (Num (currentQuestion s))"

definition updateNavigationButtons :: "page \<Rightarrow> engine \<Rightarrow> bool" where
  \<comment> \<open>writes the document only; False when it ends by a TypeError\<close>
  "updateNavigationButtons pg s =
     (if has_next_btn pg
      then (case fields_of (quizData s) of None \<Rightarrow> False | Some d \<Rightarrow> questions d \<noteq> None)
      else True)"

definition generateQuestion :: "page \<Rightarrow> question list \<Rightarrow> int \<Rightarrow> bool" where
  "generateQuestion pg qs index =
     (if \<not> has_quiz_content pg \<or> index < 0 \<or> int (length qs) \<le> index then True
      else q_options (qs ! nat index) \<noteq> None)"

definition showQuestion :: "page \<Rightarrow> engine \<Rightarrow> int \<Rightarrow> bool" where
  \<comment> \<open>writes the document only; False when it ends by a TypeError\<close>
  "showQuestion pg s index =
     (if \<not> truthy (quizData s) then True
      else (case fields_of (quizData s) of
              None \<Rightarrow> True
            | Some d \<Rightarrow>
                (case questions d of
                   None \<Rightarrow> False
                 | Some qs \<Rightarrow>
                     if int (length qs) \<le> index then True
                     else if has_question_element pg (index + 1) then True
                     else generateQuestion pg qs index)))"

definition displayResults :: "page \<Rightarrow> quiz_doc \<Rightarrow> risk \<Rightarrow> bool" where
  \<comment> \<open>writes the document only; False when it ends by a TypeError\<close>
  "displayResults pg d level =
     (case scoring d of
        None \<Rightarrow> False
      | Some sc \<Rightarrow>
          (case recommendations d of
             None \<Rightarrow> False
           | Some recs \<Rightarrow>
               if has_risk_level pg \<or> has_score_circle pg then bucket_of sc level \<noteq> None
               else True))"

subsubsection \<open>Scoring\<close>

definition calculateScore :: "engine \<Rightarrow> number \<times> engine" where
  "calculateScore s =
     (let total = foldl (\<lambda>t a. js_add t (ans_weight a)) (Num 0) (Object_values (answers s))
      in (total, s\<lparr>totalScore := total\<rparr>))"

definition getResultLevel :: "engine \<Rightarrow> risk option \<times> engine" where
  \<comment> \<open>the level, or None for a TypeError on a missing scoring table or bucket\<close>
  "getResultLevel s =
     (let (score, s1) = calculateScore s in
      case fields_of (quizData s1) of
        None \<Rightarrow> (None, s1)
      | Some d \<Rightarrow>
          (case scoring d of
             None \<Rightarrow> (None, s1)
           | Some sc \<Rightarrow>
               (case low sc of
                  None \<Rightarrow> (None, s1)
                | Some lo \<Rightarrow>
                    if js_le score (b_max lo) then (Some Low, s1)
                    else (case moderate sc of
                            None \<Rightarrow> (None, s1)
                          | Some mo \<Rightarrow>
                              if js_le score (b_max mo) then (Some Moderate, s1)
                              else (Some High, s1)))))"

subsubsection \<open>Selecting answers\<close>

definition selectAnswer :: "page \<Rightarrow> button option \<Rightarrow> engine \<Rightarrow> outcome" where
  "selectAnswer pg btn s =
     (case btn of
        None \<Rightarrow> Returned s
      | Some b \<Rightarrow>
          (case question_attr b of
             None \<Rightarrow> Threw s
           | Some attr \<Rightarrow>
               let questionIndex = js_add (parseInt (dataset_string attr)) (Num (- 1));
                   val = data_value b;
                   weight = or_zero (parseInt (dataset_string (data_weight b)));
                   txt = (case text_content b of
                            None \<Rightarrow> val
                          | Some t \<Rightarrow> (if t = [] then val else Some t));
                   s1 = s\<lparr>answers := assign (answers s) questionIndex
                            \<lparr>ans_value = val, ans_weight = weight, ans_text = txt\<rparr>\<rparr>
               in if \<not> updateNavigationButtons pg s1 then Threw s1
                  else (case fields_of (quizData s1) of
                          None \<Rightarrow> Threw s1
                        | Some d \<Rightarrow>
                            let s2 = (if autoAdvance d \<noteq> Some False
                                      then s1\<lparr>timers := timers s1 + 1\<rparr> else s1)
                            in Returned (announceToScreenReader (Selected txt) s2))))"

definition selectScaleAnswer :: "page \<Rightarrow> button option \<Rightarrow> engine \<Rightarrow> outcome" where
  "selectScaleAnswer pg btn s =
     (case btn of
        None \<Rightarrow> Returned s
      | Some b \<Rightarrow>
          (case question_attr b of
             None \<Rightarrow> Threw s
           | Some attr \<Rightarrow>
               let questionIndex = js_add (parseInt (dataset_string attr)) (Num (- 1));
                   val = data_value b;
                   weight = or_zero (or_else (parseInt (dataset_string (data_weight b)))
                                             (parseInt (dataset_string val)));
                   s1 = s\<lparr>answers := assign (answers s) questionIndex
                            \<lparr>ans_value = val, ans_weight = weight,
                             ans_text = Some (''Scale: '' @ dataset_string val)\<rparr>\<rparr>
               in if \<not> updateNavigationButtons pg s1 then Threw s1
                  else Returned (announceToScreenReader (Selected_scale val) s1)))"

subsubsection \<open>Navigation\<close>

definition completeQuiz :: "page \<Rightarrow> engine \<Rightarrow> outcome" where
  "completeQuiz pg s =
     (let s1 = s\<lparr>isQuizCompleted := True\<rparr>;
          (score, s2) = calculateScore s1;
          (lv, s3) = getResultLevel s2
      in case lv of
           None \<Rightarrow> Threw s3
         | Some level \<Rightarrow>
             if \<not> has_quiz_container pg then Threw s3
             else if has_results_section pg \<and>
                     \<not> (case fields_of (quizData s3) of
                          None \<Rightarrow> False
                        | Some d \<Rightarrow> displayResults pg d level)
             then Threw s3
             else
               let s4 = (if has_tracker pg
                         then s3\<lparr>effects := effects s3 @
                                [TrackEvent_quiz_completed (toolName s3) score level (length (answers s3))]\<rparr>
                         else s3)
               in if \<not> has_results_section pg then Threw s4
                  else Returned (announceToScreenReader (Quiz_completed level score) s4))"

definition nextQuestion :: "page \<Rightarrow> engine \<Rightarrow> outcome" where
  "nextQuestion pg s =
     (if \<not> canProceed s then Returned s
      else (case fields_of (quizData s) of
              None \<Rightarrow> Threw s
            | Some d \<Rightarrow>
                (case questions d of
                   None \<Rightarrow> Threw s
                 | Some qs \<Rightarrow>
                     if currentQuestion s < int (length qs) - 1
                     then let s1 = s\<lparr>currentQuestion := currentQuestion s + 1\<rparr>
                          in if showQuestion pg s1 (currentQuestion s1) then Returned s1 else Threw s1
                     else completeQuiz pg s)))"

definition previousQuestion :: "page \<Rightarrow> engine \<Rightarrow> outcome" where
  "previousQuestion pg s =
     (if currentQuestion s > 0
      then let s1 = s\<lparr>currentQuestion := currentQuestion s - 1\<rparr>
           in if showQuestion pg s1 (currentQuestion s1) then Returned s1 else Threw s1
      else Returned s)"

definition restartQuiz :: "page \<Rightarrow> engine \<Rightarrow> outcome" where
  "restartQuiz pg s =
     (let s1 = s\<lparr>currentQuestion := 0, answers := [], totalScore := Num 0,
                   isQuizCompleted := False\<rparr>
      in if \<not> has_quiz_container pg then Threw s1
         else if \<not> showQuestion pg s1 0 then Threw s1
         else Returned (announceToScreenReader Quiz_restarted s1))"

subsubsection \<open>The auto-advance timer\<close>

definition autoAdvance_callback :: "page \<Rightarrow> engine \<Rightarrow> outcome" where
  \<comment> \<open>the arrow function selectAnswer hands to setTimeout\<close>
  "autoAdvance_callback pg s = (if canProceed s then nextQuestion pg s else Returned s)"

definition timer_fires :: "page \<Rightarrow> engine \<Rightarrow> outcome option" where
  \<comment> \<open>the event loop runs one pending callback; None when none is pending\<close>
  "timer_fires pg s =
     (if timers s = 0 then None
      else Some (autoAdvance_callback pg (s\<lparr>timers := timers s - 1\<rparr>)))"

subsubsection \<open>Initialisation\<close>

definition init :: "page \<Rightarrow> response option \<Rightarrow> engine \<Rightarrow> engine" where
  "init pg fetched s =
     (case loadQuizData fetched s of
        (Some e, s1) \<Rightarrow> s1\<lparr>effects := effects s1 @ [ShowError]\<rparr>
      | (None, s1) \<Rightarrow>
          let s2 = s1\<lparr>listening := True\<rparr> in
          if showQuestion pg s2 0 then s2 else s2\<lparr>effects := effects s2 @ [ShowError]\<rparr>)"

subsubsection \<open>Export\<close>

record result =
  r_tool :: string
  r_score :: number
  r_level :: risk
  r_answers :: "(number \<times> answer) list"
  r_completedAt :: string
  r_recommendations :: "string list option"

datatype exported = Export_threw | Export_null | Export_result result

definition exportResults :: "string \<Rightarrow> engine \<Rightarrow> exported \<times> engine" where
  \<comment> \<open>the first argument is what new Date().toISOString() gives at the call\<close>
  "exportResults now s =
     (if \<not> isQuizCompleted s then (Export_null, s)
      else
        let score = totalScore s;
            (lv, s1) = getResultLevel s
        in case lv of
             None \<Rightarrow> (Export_threw, s1)
           | Some level \<Rightarrow>
               (case fields_of (quizData s1) of
                  None \<Rightarrow> (Export_threw, s1)
                | Some d \<Rightarrow>
                    let (lv2, s2) = getResultLevel s1 in
                    (case lv2 of
                       None \<Rightarrow> (Export_threw, s2)
                     | Some level2 \<Rightarrow>
                         (case recommendations d of
                            None \<Rightarrow> (Export_threw, s2)
                          | Some recs \<Rightarrow>
                              (Export_result
                                 \<lparr>r_tool = toolName s, r_score = score, r_level = level,
                                  r_answers = answers s2, r_completedAt = now,
                                  r_recommendations = recs level2\<rparr>, s2)))))"

subsection \<open>The spec's classify, and recording in sequence\<close>

definition classify_spec :: "number \<Rightarrow> (risk \<times> int) list \<Rightarrow> risk option" where
  \<comment> \<open>spec 4.4, in its words: the buckets by ascending maxScore, the first whose maxScore
      is at least the score, and the one with the largest maxScore when none matches\<close>
  "classify_spec score buckets =
     (let ascending = sort_key snd buckets in
      case find (\<lambda>b. js_le score (snd b)) ascending of
        Some b \<Rightarrow> Some (fst b)
      | None \<Rightarrow> (if ascending = [] then None else Some (fst (last ascending))))"

definition record_all :: "(number \<times> answer) list \<Rightarrow> (number \<times> answer) list" where
  \<comment> \<open>the answers object after the writes answers[k] = a of the list, in its order,
      into the empty object\<close>
  "record_all ws = foldl (\<lambda>kvs ka. assign kvs (fst ka) (snd ka)) [] ws"

definition int_of :: "number \<Rightarrow> int" where
  \<comment> \<open>the integer a finite number is\<close>
  "int_of a = (case a of Num x \<Rightarrow> x | _ \<Rightarrow> 0)"

definition is_finite :: "number \<Rightarrow> bool" where
  "is_finite a = (case a of Num x \<Rightarrow> True | _ \<Rightarrow> False)"

definition sum_of_weights :: "(number \<times> answer) list \<Rightarrow> int" where
  \<comment> \<open>the mathematical sum of the recorded weights\<close>
  "sum_of_weights kvs = sum_list (map (\<lambda>kv. int_of (ans_weight (snd kv))) kvs)"

definition exact_weights :: "(number \<times> answer) list \<Rightarrow> bool" where
  \<comment> \<open>every recorded weight is finite and their magnitudes sum to less than \<open>2 ^ 53\<close>:
      no sum of any of them is rounded\<close>
  "exact_weights kvs =
     (list_all (\<lambda>kv. is_finite (ans_weight (snd kv))) kvs
      \<and> sum_list (map (\<lambda>kv. \<bar>int_of (ans_weight (snd kv))\<bar>) kvs) < 2 ^ 53)"

subsection \<open>A sample quiz\<close>

definition demo_doc :: quiz_doc where
  "demo_doc =
     \<lparr>questions = Some [\<lparr>q_type = None, q_options = Some []\<rparr>,
                        \<lparr>q_type = Some ''scale'', q_options = Some []\<rparr>],
      scoring = Some \<lparr>low = Some \<lparr>b_max = 5, b_level = ''Low Risk'', b_color = ''green''\<rparr>,
                      moderate = Some \<lparr>b_max = 10, b_level = ''Moderate Risk'', b_color = ''orange''\<rparr>,
                      high = Some \<lparr>b_max = 20, b_level = ''High Risk'', b_color = ''red''\<rparr>\<rparr>,
      recommendations = Some (\<lambda>l. Some [''Rest'']),
      autoAdvance = None,
      maxScore = Some 20\<rparr>"

definition demo_page :: page where
  "demo_page =
     \<lparr>has_quiz_container = True, has_results_section = True, has_next_btn = True,
      has_quiz_content = True, has_question_element = (\<lambda>k. True), has_risk_level = True,
      has_score_circle = True, has_tracker = True\<rparr>"

definition demo_button :: "string \<Rightarrow> string \<Rightarrow> string \<Rightarrow> button" where
  \<comment> \<open>a button of the question element numbered q, with the given value and weight\<close>
  "demo_button q v w =
     \<lparr>question_attr = Some (Some q), data_value = Some v, data_weight = Some w,
      text_content = Some ''Sometimes''\<rparr>"

definition demo_answer :: "int \<Rightarrow> answer" where
  "demo_answer w = \<lparr>ans_value = Some ''v'', ans_weight = Num w, ans_text = Some ''t''\<rparr>"

definition demo_engine :: engine where
  \<comment> \<open>the engine after a successful load of the sample quiz\<close>
  "demo_engine = (new_SymptomChecker ''flu'')\<lparr>quizData := JObject demo_doc, listening := True\<rparr>"

definition demo_answered0 :: engine where
  \<comment> \<open>the first question answered with a choice of weight 2\<close>
  "demo_answered0 = state_of (selectAnswer demo_page (Some (demo_button ''1'' ''often'' ''2'')) demo_engine)"

definition demo_at1 :: engine where
  \<comment> \<open>then the Next button\<close>
  "demo_at1 = state_of (nextQuestion demo_page demo_answered0)"

definition demo_answered1 :: engine where
  \<comment> \<open>then the second question answered on the scale, value 3\<close>
  "demo_answered1 = state_of (selectScaleAnswer demo_page (Some (demo_button ''2'' ''3'' ''0'')) demo_at1)"

definition demo_completed :: engine where
  \<comment> \<open>then the Next button again: the quiz is completed\<close>
  "demo_completed = state_of (nextQuestion demo_page demo_answered1)"

definition demo_reanswered :: engine where
  \<comment> \<open>after completion, the first question answered again with a choice of weight 9\<close>
  "demo_reanswered = state_of (selectAnswer demo_page (Some (demo_button ''1'' ''always'' ''9'')) demo_completed)"

definition demo_empty_response :: response where
  \<comment> \<open>a successful response whose document has an empty questions array\<close>
  "demo_empty_response = \<lparr>ok = True, status = ''200'', body = Some (JObject (demo_doc\<lparr>questions := Some []\<rparr>))\<rparr>"

section \<open>Properties\<close>

subsection \<open>Unfolding and evaluation\<close>

lemmas parse_defs = parseInt_def is_space_def is_digit_def digit_of_def digits_value_def
  has_hex_prefix_def dataset_string_def

lemmas engine_defs = selectAnswer_def selectScaleAnswer_def nextQuestion_def previousQuestion_def
  completeQuiz_def restartQuiz_def canProceed_def hasOwnProperty_def updateNavigationButtons_def
  showQuestion_def generateQuestion_def displayResults_def bucket_of_def calculateScore_def
  getResultLevel_def announceToScreenReader_def Object_values_def is_array_index_def
  index_of_key_def or_zero_def or_else_def autoAdvance_callback_def timer_fires_def
  exportResults_def init_def loadQuizData_def truthy_def fields_of_def Let_def

lemmas demo_defs = demo_engine_def demo_doc_def demo_page_def demo_button_def demo_answer_def
  new_SymptomChecker_def

subsection \<open>Rounding\<close>

lemma bit_length_0 [simp]: "bit_length 0 = 0"
  by (simp add: bit_length.simps[of 0])

lemma bit_length_1 [simp]: "bit_length (Suc 0) = Suc 0"
  by (simp add: bit_length.simps[of "Suc 0"])

lemma bit_length_le: "n < 2 ^ k \<Longrightarrow> bit_length n \<le> k"
proof (induction k arbitrary: n)
  case 0
  then show ?case by simp
next
  case (Suc k)
  then have "n div 2 < 2 ^ k" by simp
  then have "bit_length (n div 2) \<le> k" by (rule Suc.IH)
  then show ?case by (simp add: bit_length.simps[of n])
qed

lemma bit_length_eq: "2 ^ k \<le> n \<Longrightarrow> n < 2 ^ Suc k \<Longrightarrow> bit_length n = Suc k"
proof (induction k arbitrary: n)
  case 0
  then have "n = 1" by simp
  then show ?case by simp
next
  case (Suc k)
  have "2 ^ k \<le> n div 2" using Suc.prems(1) by simp
  moreover have "n div 2 < 2 ^ Suc k" using Suc.prems(2) by simp
  ultimately have "bit_length (n div 2) = Suc k" by (rule Suc.IH)
  moreover have "n \<noteq> 0"
  proof -
    have "(0::nat) < 2 ^ Suc k" by simp
    then show ?thesis using Suc.prems(1) by linarith
  qed
  ultimately show ?case by (simp add: bit_length.simps[of n])
qed

lemma round_double_exact: "\<bar>x\<bar> < 2 ^ 53 \<Longrightarrow> round_double x = Num x"
proof -
  assume "\<bar>x\<bar> < 2 ^ 53"
  then have "nat \<bar>x\<bar> < 2 ^ 53" by (simp add: nat_less_iff)
  then have "bit_length (nat \<bar>x\<bar>) \<le> 53" by (rule bit_length_le)
  then show ?thesis by (simp add: round_double_def Let_def)
qed

lemma round_double_numeral [simp]:
  "round_double 0 = Num 0"
  "round_double 1 = Num 1"
  "(numeral n :: int) < 2 ^ 53 \<Longrightarrow> round_double (numeral n) = Num (numeral n)"
  "(numeral n :: int) < 2 ^ 53 \<Longrightarrow> round_double (- numeral n) = Num (- numeral n)"
  by (simp_all add: round_double_exact)

lemma round_double_tie: "round_double 9007199254740993 = Num 9007199254740992"
proof -
  have "bit_length (nat \<bar>9007199254740993\<bar>) = 54"
    using bit_length_eq[of 53 "nat \<bar>9007199254740993\<bar>"] by simp
  then show ?thesis
    by (simp add: round_double_def Let_def)
qed

lemma round_double_power: "round_double 9007199254740992 = Num 9007199254740992"
proof -
  have "bit_length (nat \<bar>9007199254740992\<bar>) = 54"
    using bit_length_eq[of 53 "nat \<bar>9007199254740992\<bar>"] by simp
  then show ?thesis
    by (simp add: round_double_def Let_def)
qed

lemma round_double_even: "round_double 9007199254740994 = Num 9007199254740994"
proof -
  have "bit_length (nat \<bar>9007199254740994\<bar>) = 54"
    using bit_length_eq[of 53 "nat \<bar>9007199254740994\<bar>"] by simp
  then show ?thesis
    by (simp add: round_double_def Let_def)
qed

lemma parseInt_examples:
  "parseInt ''  -12px'' = Num (- 12)"
  "parseInt ''0x1F'' = Num 31"
  "parseInt ''undefined'' = NaN"
  "parseInt ''9007199254740993'' = Num 9007199254740992"
  by (simp_all add: parse_defs round_double_tie)

subsection \<open>Helper facts\<close>

lemma foldl_exact:
  "list_all (\<lambda>a. is_finite (ans_weight a)) xs \<Longrightarrow>
   \<bar>z\<bar> + sum_list (map (\<lambda>a. \<bar>int_of (ans_weight a)\<bar>) xs) < 2 ^ 53 \<Longrightarrow>
   foldl (\<lambda>t a. js_add t (ans_weight a)) (Num z) xs
   = Num (z + sum_list (map (\<lambda>a. int_of (ans_weight a)) xs))"
proof (induction xs arbitrary: z)
  case Nil
  then show ?case by simp
next
  case (Cons a xs)
  from Cons.prems(1) obtain w where w: "ans_weight a = Num w"
    by (cases "ans_weight a") (simp_all add: is_finite_def)
  have nonneg: "0 \<le> sum_list (map (\<lambda>a. \<bar>int_of (ans_weight a)\<bar>) xs)"
    by (rule sum_list_nonneg) auto
  have bound: "\<bar>z + w\<bar> + sum_list (map (\<lambda>a. \<bar>int_of (ans_weight a)\<bar>) xs) < 2 ^ 53"
    using Cons.prems(2) w by (simp add: int_of_def)
  then have "\<bar>z + w\<bar> < 2 ^ 53"
    using nonneg by linarith
  then have step: "round_double (z + w) = Num (z + w)"
    by (rule round_double_exact)
  have "list_all (\<lambda>a. is_finite (ans_weight a)) xs"
    using Cons.prems(1) by simp
  from Cons.IH[OF this bound] show ?case
    by (simp add: step w int_of_def add.assoc)
qed

lemma sum_list_mset_cong:
  fixes f :: "'a \<Rightarrow> int"
  assumes "mset xs = mset ys"
  shows "sum_list (map f xs) = sum_list (map f ys)"
proof -
  have "sum_mset (image_mset f (mset xs)) = sum_mset (image_mset f (mset ys))"
    using assms by simp
  then show ?thesis
    by (simp add: sum_mset_sum_list[symmetric] flip: mset_map)
qed

lemma list_all_mset_cong:
  assumes "mset xs = mset ys"
  shows "list_all P xs = list_all P ys"
  using mset_eq_setD[OF assms] by (simp add: list_all_iff)

lemma mset_Object_values: "mset (Object_values kvs) = mset (map snd kvs)"
proof -
  let ?P = "\<lambda>kv. is_array_index (fst kv)"
  have "mset kvs = filter_mset ?P (mset kvs) + filter_mset (\<lambda>kv. \<not> ?P kv) (mset kvs)"
    by (rule multiset_partition)
  then have "image_mset snd (mset kvs)
      = image_mset snd (filter_mset ?P (mset kvs)) + image_mset snd (filter_mset (\<lambda>kv. \<not> ?P kv) (mset kvs))"
    by (metis image_mset_union)
  then show ?thesis
    by (simp add: Object_values_def)
qed

lemma exact_weights_mset:
  assumes "mset kvs' = mset kvs"
  shows "exact_weights kvs' = exact_weights kvs"
    and "sum_of_weights kvs' = sum_of_weights kvs"
  using sum_list_mset_cong[OF assms, of "\<lambda>kv. \<bar>int_of (ans_weight (snd kv))\<bar>"]
    sum_list_mset_cong[OF assms, of "\<lambda>kv. int_of (ans_weight (snd kv))"]
    list_all_mset_cong[OF assms, of "\<lambda>kv. is_finite (ans_weight (snd kv))"]
  by (simp_all add: exact_weights_def sum_of_weights_def)

lemma calculateScore_state: "snd (calculateScore s) = s\<lparr>totalScore := fst (calculateScore s)\<rparr>"
  by (simp add: calculateScore_def Let_def)

lemma calculateScore_exact:
  assumes "exact_weights (answers s)"
  shows "fst (calculateScore s) = Num (sum_of_weights (answers s))"
proof -
  let ?vs = "Object_values (answers s)"
  have m: "mset ?vs = mset (map snd (answers s))"
    by (rule mset_Object_values)
  have fin: "list_all (\<lambda>a. is_finite (ans_weight a)) ?vs"
    using assms list_all_mset_cong[OF m, of "\<lambda>a. is_finite (ans_weight a)"]
    by (simp add: exact_weights_def list_all_iff)
  have mag: "sum_list (map (\<lambda>a. \<bar>int_of (ans_weight a)\<bar>) ?vs) < 2 ^ 53"
    using assms sum_list_mset_cong[OF m, of "\<lambda>a. \<bar>int_of (ans_weight a)\<bar>"]
    by (simp add: exact_weights_def comp_def)
  have total: "sum_list (map (\<lambda>a. int_of (ans_weight a)) ?vs) = sum_of_weights (answers s)"
    using sum_list_mset_cong[OF m, of "\<lambda>a. int_of (ans_weight a)"]
    by (simp add: sum_of_weights_def comp_def)
  have "foldl (\<lambda>t a. js_add t (ans_weight a)) (Num 0) ?vs
        = Num (0 + sum_list (map (\<lambda>a. int_of (ans_weight a)) ?vs))"
    using fin mag by (intro foldl_exact) simp_all
  then show ?thesis
    by (simp add: calculateScore_def Let_def total)
qed

lemma assign_fresh: "k \<notin> fst ` set kvs \<Longrightarrow> assign kvs k a = kvs @ [(k, a)]"
  by (induction kvs) auto

lemma record_distinct:
  "distinct (map fst (acc @ ws)) \<Longrightarrow> foldl (\<lambda>kvs ka. assign kvs (fst ka) (snd ka)) acc ws = acc @ ws"
proof (induction ws arbitrary: acc)
  case Nil
  then show ?case by simp
next
  case (Cons w ws)
  have fresh: "fst w \<notin> fst ` set acc" using Cons.prems by auto
  have "distinct (map fst ((acc @ [w]) @ ws))" using Cons.prems by simp
  from Cons.IH[OF this] show ?case
    using assign_fresh[OF fresh, of "snd w"] by simp
qed

lemma record_all_distinct: "distinct (map fst ws) \<Longrightarrow> record_all ws = ws"
  using record_distinct[of "[]" ws] by (simp add: record_all_def)

lemma map_of_assign_same: "map_of (assign kvs k a) k = Some a"
  by (induction kvs) auto

lemma map_of_assign_other: "k' \<noteq> k \<Longrightarrow> map_of (assign kvs k a) k' = map_of kvs k'"
  by (induction kvs) auto

lemma getResultLevel_value:
  assumes "quizData s = JObject d" and "scoring d = Some sc"
    and "low sc = Some lo" and "moderate sc = Some mo"
  shows "fst (getResultLevel s) =
     Some (if js_le (fst (calculateScore s)) (b_max lo) then Low
           else if js_le (fst (calculateScore s)) (b_max mo) then Moderate else High)"
  using assms by (simp add: getResultLevel_def calculateScore_def fields_of_def Let_def)

lemma getResultLevel_state: "snd (getResultLevel s) = s\<lparr>totalScore := fst (calculateScore s)\<rparr>"
  by (simp add: getResultLevel_def calculateScore_def Let_def split: option.splits)

lemma calculateScore_update [simp]:
  "fst (calculateScore (s\<lparr>isQuizCompleted := b\<rparr>)) = fst (calculateScore s)"
  "fst (calculateScore (s\<lparr>totalScore := x\<rparr>)) = fst (calculateScore s)"
  by (simp_all add: calculateScore_def Let_def)

lemma getResultLevel_update [simp]:
  "fst (getResultLevel (s\<lparr>isQuizCompleted := b\<rparr>)) = fst (getResultLevel s)"
  "fst (getResultLevel (s\<lparr>totalScore := x\<rparr>)) = fst (getResultLevel s)"
  by (simp_all add: getResultLevel_def calculateScore_def Let_def split: option.splits)

lemma getResultLevel_pair:
  "getResultLevel s = (fst (getResultLevel s), s\<lparr>totalScore := fst (calculateScore s)\<rparr>)"
  using getResultLevel_state[of s] by (metis prod.collapse)

lemma calculateScore_pair:
  "calculateScore s = (fst (calculateScore s), s\<lparr>totalScore := fst (calculateScore s)\<rparr>)"
  using calculateScore_state[of s] by (metis prod.collapse)

subsection \<open>Scoring\<close>

text \<open>
  C4 (as amended). For every answers object, also one that holds answers for only
  some of the questions, whose weights are finite and whose magnitudes sum to less
  than \<open>2 ^ 53\<close>, calculateScore returns the sum of the weights of the recorded
  answers, and it stores what it returns in totalScore. Under that bound the score
  does not depend on the order of recording: two objects with the same entries score
  the same, and so do the objects that result from recording the same answers (one
  per key) in two different orders.
\<close>

theorem calculateScore_sum_of_weights:
  "(exact_weights (answers s) \<longrightarrow> fst (calculateScore s) = Num (sum_of_weights (answers s)))
   \<and> totalScore (snd (calculateScore s)) = fst (calculateScore s)
   \<and> (exact_weights (answers s) \<and> mset (answers s') = mset (answers s) \<longrightarrow>
        fst (calculateScore s') = fst (calculateScore s))
   \<and> (exact_weights ws \<and> distinct (map fst ws) \<and> mset ws' = mset ws \<longrightarrow>
        fst (calculateScore (s\<lparr>answers := record_all ws'\<rparr>))
        = fst (calculateScore (s\<lparr>answers := record_all ws\<rparr>)))"
proof -
  have same: "fst (calculateScore s') = fst (calculateScore s)"
    if e: "exact_weights (answers s)" and m: "mset (answers s') = mset (answers s)"
  proof -
    have "exact_weights (answers s')"
      using exact_weights_mset(1)[OF m] e by simp
    then show ?thesis
      using exact_weights_mset(2)[OF m] e by (simp add: calculateScore_exact)
  qed
  have order: "fst (calculateScore (s\<lparr>answers := record_all ws'\<rparr>))
        = fst (calculateScore (s\<lparr>answers := record_all ws\<rparr>))"
    if e: "exact_weights ws" and d: "distinct (map fst ws)" and m: "mset ws' = mset ws"
  proof -
    have "mset (map fst ws') = mset (map fst ws)"
      using m by (metis mset_map)
    then have d': "distinct (map fst ws')"
      using d by (metis mset_eq_imp_distinct_iff)
    have e': "exact_weights ws'"
      using exact_weights_mset(1)[OF m] e by simp
    show ?thesis
      using exact_weights_mset(2)[OF m] e e'
      by (simp add: calculateScore_exact record_all_distinct d d')
  qed
  have total: "totalScore (snd (calculateScore s)) = fst (calculateScore s)"
    by (simp add: calculateScore_state)
  show ?thesis
    using same order total calculateScore_exact[of s] by blast
qed

theorem calculateScore_sum_of_weights_witness:
  "exact_weights [(Num 2, demo_answer 3), (Num 0, demo_answer 2)]
   \<and> fst (calculateScore (demo_engine\<lparr>answers := [(Num 2, demo_answer 3), (Num 0, demo_answer 2)]\<rparr>)) = Num 5
   \<and> fst (calculateScore (demo_engine\<lparr>answers := [(Num 0, demo_answer 2), (Num 2, demo_answer 3)]\<rparr>)) = Num 5
   \<and> fst (calculateScore (demo_engine\<lparr>answers := record_all [(Num 2, demo_answer 3), (Num 0, demo_answer 2)]\<rparr>))
     = fst (calculateScore (demo_engine\<lparr>answers := record_all [(Num 0, demo_answer 2), (Num 2, demo_answer 3)]\<rparr>))"
  using calculateScore_sum_of_weights
    [of "demo_engine\<lparr>answers := [(Num 2, demo_answer 3), (Num 0, demo_answer 2)]\<rparr>"
        "demo_engine\<lparr>answers := [(Num 0, demo_answer 2), (Num 2, demo_answer 3)]\<rparr>"
        "[(Num 0, demo_answer 2), (Num 2, demo_answer 3)]"
        "[(Num 2, demo_answer 3), (Num 0, demo_answer 2)]"]
  by (simp add: demo_answer_def exact_weights_def sum_of_weights_def is_finite_def int_of_def)

text \<open>
  The claim as stated fails where a sum is rounded. With the weights \<open>2 ^ 53\<close>, 1
  and 1 recorded for the questions 0, 1 and 2 the score is \<open>2 ^ 53\<close>, not their
  sum: each addition of 1 is a tie that rounds back to even. Recorded under keys that
  are not array indices, which Object.values lists as inserted, the same three entries
  score \<open>2 ^ 53 + 2\<close> in one order of recording and \<open>2 ^ 53\<close> in another.
\<close>

theorem calculateScore_rounding_counterexample:
  "sum_of_weights [(Num 0, demo_answer 9007199254740992), (Num 1, demo_answer 1), (Num 2, demo_answer 1)]
     = 9007199254740994
   \<and> fst (calculateScore (demo_engine\<lparr>answers :=
        [(Num 0, demo_answer 9007199254740992), (Num 1, demo_answer 1), (Num 2, demo_answer 1)]\<rparr>))
     = Num 9007199254740992
   \<and> mset [(Num (- 1), demo_answer 1), (Num (- 2), demo_answer 1), (Num (- 3), demo_answer 9007199254740992)]
     = mset [(Num (- 3), demo_answer 9007199254740992), (Num (- 1), demo_answer 1), (Num (- 2), demo_answer 1)]
   \<and> fst (calculateScore (demo_engine\<lparr>answers :=
        [(Num (- 1), demo_answer 1), (Num (- 2), demo_answer 1), (Num (- 3), demo_answer 9007199254740992)]\<rparr>))
     = Num 9007199254740994
   \<and> fst (calculateScore (demo_engine\<lparr>answers :=
        [(Num (- 3), demo_answer 9007199254740992), (Num (- 1), demo_answer 1), (Num (- 2), demo_answer 1)]\<rparr>))
     = Num 9007199254740992"
  by (simp add: calculateScore_def Object_values_def is_array_index_def index_of_key_def
      demo_answer_def sum_of_weights_def int_of_def Let_def round_double_tie round_double_even
      round_double_power)

lemma classify_spec_monotone:
  "lo \<le> mo \<Longrightarrow> mo \<le> hi \<Longrightarrow>
   classify_spec x [(Low, lo), (Moderate, mo), (High, hi)]
   = Some (if js_le x lo then Low else if js_le x mo then Moderate else High)"
  by (simp add: classify_spec_def Let_def)

text \<open>
  C3 (as amended). getResultLevel checks the buckets in the fixed order low, moderate,
  high: it returns low when the score is at most low.max, otherwise moderate when the
  score is at most moderate.max, otherwise high; the boundaries are inclusive and the
  bound of high is never read. Whenever low.max \<le> moderate.max \<le> high.max this is the
  spec's classify: the first bucket by ascending maxScore whose maxScore is at least
  the score, and the bucket with the largest maxScore when none matches. With
  low.max = 5 and moderate.max = 10, score 5 gives low, 6 gives moderate, 11 gives high.
\<close>

theorem getResultLevel_fixed_order:
  assumes "quizData s = JObject d" and "scoring d = Some sc"
    and "low sc = Some lo" and "moderate sc = Some mo"
  shows "fst (getResultLevel s) =
           Some (if js_le (fst (calculateScore s)) (b_max lo) then Low
                 else if js_le (fst (calculateScore s)) (b_max mo) then Moderate else High)
     \<and> (\<forall>hi. high sc = Some hi \<and> b_max lo \<le> b_max mo \<and> b_max mo \<le> b_max hi \<longrightarrow>
            fst (getResultLevel s) =
            classify_spec (fst (calculateScore s))
              [(Low, b_max lo), (Moderate, b_max mo), (High, b_max hi)])
     \<and> (b_max lo = 5 \<and> b_max mo = 10 \<longrightarrow>
            (fst (calculateScore s) = Num 5 \<longrightarrow> fst (getResultLevel s) = Some Low)
          \<and> (fst (calculateScore s) = Num 6 \<longrightarrow> fst (getResultLevel s) = Some Moderate)
          \<and> (fst (calculateScore s) = Num 11 \<longrightarrow> fst (getResultLevel s) = Some High))"
proof -
  note lv = getResultLevel_value[OF assms]
  have spec: "fst (getResultLevel s) =
            classify_spec (fst (calculateScore s))
              [(Low, b_max lo), (Moderate, b_max mo), (High, b_max hi)]"
    if "b_max lo \<le> b_max mo" and "b_max mo \<le> b_max hi" for hi
    using classify_spec_monotone[OF that] lv by simp
  have ex: "(fst (calculateScore s) = Num 5 \<longrightarrow> fst (getResultLevel s) = Some Low)
          \<and> (fst (calculateScore s) = Num 6 \<longrightarrow> fst (getResultLevel s) = Some Moderate)
          \<and> (fst (calculateScore s) = Num 11 \<longrightarrow> fst (getResultLevel s) = Some High)"
    if "b_max lo = 5" and "b_max mo = 10"
    using lv that by simp
  show ?thesis
    using lv spec ex by blast
qed

theorem getResultLevel_fixed_order_witness:
  "fst (getResultLevel (demo_engine\<lparr>answers := [(Num 0, demo_answer 2), (Num 1, demo_answer 4)]\<rparr>)) = Some Moderate
   \<and> classify_spec (Num 6) [(Low, 5), (Moderate, 10), (High, 20)] = Some Moderate"
  using getResultLevel_fixed_order
    [of "demo_engine\<lparr>answers := [(Num 0, demo_answer 2), (Num 1, demo_answer 4)]\<rparr>" demo_doc
        "the (scoring demo_doc)" "the (low (the (scoring demo_doc)))"
        "the (moderate (the (scoring demo_doc)))"]
  by (simp add: demo_defs engine_defs classify_spec_def)

text \<open>
  The claim as stated fails on a table that is not ascending: with low.max = 10 and
  moderate.max = 5 the score 3 is classified low by the code, while the first bucket
  by ascending maxScore that reaches 3 is moderate.
\<close>

theorem getResultLevel_ascending_counterexample:
  "fst (calculateScore (demo_engine\<lparr>answers := [(Num 0, demo_answer 3)]\<rparr>)) = Num 3
   \<and> fst (getResultLevel
        (demo_engine
           \<lparr>quizData := JObject (demo_doc\<lparr>scoring := Some
               \<lparr>low = Some \<lparr>b_max = 10, b_level = ''Low Risk'', b_color = ''green''\<rparr>,
                moderate = Some \<lparr>b_max = 5, b_level = ''Moderate Risk'', b_color = ''orange''\<rparr>,
                high = Some \<lparr>b_max = 20, b_level = ''High Risk'', b_color = ''red''\<rparr>\<rparr>\<rparr>),
            answers := [(Num 0, demo_answer 3)]\<rparr>)) = Some Low
   \<and> classify_spec (Num 3) [(Low, 10), (Moderate, 5), (High, 20)] = Some Moderate"
  by (simp add: demo_defs engine_defs classify_spec_def)

subsection \<open>Scale answers\<close>

text \<open>
  C9. selectScaleAnswer records, under the index of the button's question element, an
  answer whose weight is the integer parse of data-weight when that parse is a nonzero
  number; when data-weight is missing, not numeric or parses to 0, the weight is the
  integer parse of data-value, and 0 when that is not a number either. The recorded
  weight is 0 only when both parses are NaN or 0. So a scale option weighted 0 with a
  nonzero numeric value is recorded with its value as weight.
\<close>

theorem selectScaleAnswer_weight:
  assumes "question_attr b = Some attr"
  shows "\<exists>a. map_of (answers (state_of (selectScaleAnswer pg (Some b) s)))
               (js_add (parseInt (dataset_string attr)) (Num (- 1))) = Some a
     \<and> ans_value a = data_value b
     \<and> (parseInt (dataset_string (data_weight b)) \<noteq> NaN
          \<and> parseInt (dataset_string (data_weight b)) \<noteq> Num 0 \<longrightarrow>
            ans_weight a = parseInt (dataset_string (data_weight b)))
     \<and> (parseInt (dataset_string (data_weight b)) = NaN
          \<or> parseInt (dataset_string (data_weight b)) = Num 0 \<longrightarrow>
            (parseInt (dataset_string (data_value b)) \<noteq> NaN \<longrightarrow>
               ans_weight a = parseInt (dataset_string (data_value b)))
          \<and> (parseInt (dataset_string (data_value b)) = NaN \<longrightarrow> ans_weight a = Num 0))
     \<and> (ans_weight a = Num 0 \<longrightarrow>
            (parseInt (dataset_string (data_weight b)) = NaN
             \<or> parseInt (dataset_string (data_weight b)) = Num 0)
          \<and> (parseInt (dataset_string (data_value b)) = NaN
             \<or> parseInt (dataset_string (data_value b)) = Num 0))
     \<and> (data_weight b = None \<longrightarrow> parseInt (dataset_string (data_weight b)) = NaN)"
proof -
  define k where "k = js_add (parseInt (dataset_string attr)) (Num (- 1))"
  define pw where "pw = parseInt (dataset_string (data_weight b))"
  define pv where "pv = parseInt (dataset_string (data_value b))"
  define a where "a = \<lparr>ans_value = data_value b, ans_weight = or_zero (or_else pw pv),
             ans_text = Some (''Scale: '' @ dataset_string (data_value b))\<rparr>"
  have "answers (state_of (selectScaleAnswer pg (Some b) s)) = assign (answers s) k a"
    using assms
    by (simp add: selectScaleAnswer_def Let_def announceToScreenReader_def k_def a_def pw_def pv_def)
  then have look: "map_of (answers (state_of (selectScaleAnswer pg (Some b) s))) k = Some a"
    by (simp only: map_of_assign_same)
  have av: "ans_value a = data_value b" and aw: "ans_weight a = or_zero (or_else pw pv)"
    by (simp_all add: a_def)
  have undef: "data_weight b = None \<longrightarrow> pw = NaN"
    by (simp add: pw_def parse_defs)
  have weights: "(pw \<noteq> NaN \<and> pw \<noteq> Num 0 \<longrightarrow> or_zero (or_else pw pv) = pw)
     \<and> (pw = NaN \<or> pw = Num 0 \<longrightarrow>
            (pv \<noteq> NaN \<longrightarrow> or_zero (or_else pw pv) = pv)
          \<and> (pv = NaN \<longrightarrow> or_zero (or_else pw pv) = Num 0))
     \<and> (or_zero (or_else pw pv) = Num 0 \<longrightarrow>
            (pw = NaN \<or> pw = Num 0) \<and> (pv = NaN \<or> pv = Num 0))"
    by (simp add: or_zero_def or_else_def)
  have "map_of (answers (state_of (selectScaleAnswer pg (Some b) s))) k = Some a
     \<and> ans_value a = data_value b
     \<and> (pw \<noteq> NaN \<and> pw \<noteq> Num 0 \<longrightarrow> ans_weight a = pw)
     \<and> (pw = NaN \<or> pw = Num 0 \<longrightarrow>
            (pv \<noteq> NaN \<longrightarrow> ans_weight a = pv) \<and> (pv = NaN \<longrightarrow> ans_weight a = Num 0))
     \<and> (ans_weight a = Num 0 \<longrightarrow> (pw = NaN \<or> pw = Num 0) \<and> (pv = NaN \<or> pv = Num 0))
     \<and> (data_weight b = None \<longrightarrow> pw = NaN)"
    unfolding aw using look av undef weights by blast
  then show ?thesis
    unfolding k_def pw_def pv_def by (rule exI[of _ a])
qed

theorem selectScaleAnswer_weight_witness:
  "map_of (answers (state_of (selectScaleAnswer demo_page (Some (demo_button ''2'' ''3'' ''0'')) demo_engine)))
     (Num 1) = Some \<lparr>ans_value = Some ''3'', ans_weight = Num 3, ans_text = Some ''Scale: 3''\<rparr>"
  using selectScaleAnswer_weight[of "demo_button ''2'' ''3'' ''0''" "Some ''2''" demo_page demo_engine]
  by (simp add: demo_defs parse_defs engine_defs)

subsection \<open>Completion\<close>

lemma completeQuiz_unfold:
  "completeQuiz pg s =
     (let s3 = s\<lparr>isQuizCompleted := True, totalScore := fst (calculateScore s)\<rparr> in
      case fst (getResultLevel s) of
        None \<Rightarrow> Threw s3
      | Some level \<Rightarrow>
          if \<not> has_quiz_container pg then Threw s3
          else if has_results_section pg \<and>
                  \<not> (case fields_of (quizData s) of
                       None \<Rightarrow> False
                     | Some d \<Rightarrow> displayResults pg d level)
          then Threw s3
          else if \<not> has_results_section pg
          then Threw (if has_tracker pg
                      then s3\<lparr>effects := effects s @
                             [TrackEvent_quiz_completed (toolName s) (fst (calculateScore s)) level
                                (length (answers s))]\<rparr>
                      else s3)
          else Returned
                 (s3\<lparr>effects := effects s @
                      (if has_tracker pg
                       then [TrackEvent_quiz_completed (toolName s) (fst (calculateScore s)) level
                               (length (answers s))]
                       else []) @ [Announce (Quiz_completed level (fst (calculateScore s)))]\<rparr>))"
  unfolding completeQuiz_def
  apply (subst calculateScore_pair)
  apply (subst getResultLevel_pair)
  apply (simp add: Let_def announceToScreenReader_def split: option.splits)
  done

lemma completeQuiz_state:
  "state_of (completeQuiz pg s) =
     s\<lparr>isQuizCompleted := True, totalScore := fst (calculateScore s),
       effects := effects (state_of (completeQuiz pg s))\<rparr>"
  by (simp add: completeQuiz_unfold Let_def split: option.splits)

lemma completeQuiz_effects:
  assumes "returned (completeQuiz pg s)"
  shows "\<exists>level. fst (getResultLevel s) = Some level
     \<and> effects (state_of (completeQuiz pg s)) =
         effects s
         @ (if has_tracker pg
            then [TrackEvent_quiz_completed (toolName s) (fst (calculateScore s)) level
                    (length (answers s))]
            else [])
         @ [Announce (Quiz_completed level (fst (calculateScore s)))]"
  using assms
  by (auto simp: completeQuiz_unfold Let_def split: option.splits if_splits)

lemma completeQuiz_returns:
  assumes "quizData s = JObject d" and "fst (getResultLevel s) = Some level"
    and "has_quiz_container pg" and "has_results_section pg" and "displayResults pg d level"
  shows "returned (completeQuiz pg s)"
  using assms by (simp add: completeQuiz_unfold fields_of_def Let_def)

subsection \<open>The sample run\<close>

lemma demo_answered0_value:
  "demo_answered0 = demo_engine
     \<lparr>answers := [(Num 0, \<lparr>ans_value = Some ''often'', ans_weight = Num 2, ans_text = Some ''Sometimes''\<rparr>)],
      timers := 1, effects := [Announce (Selected (Some ''Sometimes''))]\<rparr>"
  by (simp add: demo_answered0_def demo_defs engine_defs parse_defs)

lemma demo_at1_value:
  "demo_at1 = demo_engine
     \<lparr>currentQuestion := 1,
      answers := [(Num 0, \<lparr>ans_value = Some ''often'', ans_weight = Num 2, ans_text = Some ''Sometimes''\<rparr>)],
      timers := 1, effects := [Announce (Selected (Some ''Sometimes''))]\<rparr>"
  by (simp add: demo_at1_def demo_answered0_value) (simp add: demo_defs engine_defs)

lemma demo_answered1_value:
  "demo_answered1 = demo_engine
     \<lparr>currentQuestion := 1,
      answers := [(Num 0, \<lparr>ans_value = Some ''often'', ans_weight = Num 2, ans_text = Some ''Sometimes''\<rparr>),
                  (Num 1, \<lparr>ans_value = Some ''3'', ans_weight = Num 3, ans_text = Some ''Scale: 3''\<rparr>)],
      timers := 1,
      effects := [Announce (Selected (Some ''Sometimes'')), Announce (Selected_scale (Some ''3''))]\<rparr>"
  by (simp add: demo_answered1_def demo_at1_value) (simp add: demo_defs engine_defs parse_defs)

lemma demo_completed_value:
  "demo_completed = demo_engine
     \<lparr>currentQuestion := 1,
      answers := [(Num 0, \<lparr>ans_value = Some ''often'', ans_weight = Num 2, ans_text = Some ''Sometimes''\<rparr>),
                  (Num 1, \<lparr>ans_value = Some ''3'', ans_weight = Num 3, ans_text = Some ''Scale: 3''\<rparr>)],
      totalScore := Num 5, isQuizCompleted := True, timers := 1,
      effects := [Announce (Selected (Some ''Sometimes'')), Announce (Selected_scale (Some ''3'')),
                  TrackEvent_quiz_completed ''flu'' (Num 5) Low 2, Announce (Quiz_completed Low (Num 5))]\<rparr>"
  by (simp add: demo_completed_def demo_answered1_value) (simp add: demo_defs engine_defs)

subsection \<open>Navigation\<close>

text \<open>
  C1 (as amended). nextQuestion is a no-op unless canProceed holds. With an answer
  recorded for the current question i and i < N - 1 it moves to question i + 1 and
  changes nothing else. With i = N - 1 (or beyond) it runs completeQuiz: the session is
  marked completed, totalScore is set to the score calculateScore computes, and no
  other field but the effects changes; when the call returns it has emitted the
  completion announcement, preceded by one quiz_completed event when the page has the
  tracker (window.HealthCheckPro) and by nothing when it has not; and it returns
  whenever the level is defined, the page has the quiz container and the results
  section, and displayResults does not fail. The completion flag is not consulted: all
  of this holds as well when the session is already completed, so a further
  nextQuestion on a completed session runs the completion and emits its effects again.
\<close>

theorem nextQuestion_steps:
  "(\<not> canProceed s \<longrightarrow> nextQuestion pg s = Returned s)
   \<and> (canProceed s \<and> quizData s = JObject d \<and> questions d = Some qs
        \<and> currentQuestion s < int (length qs) - 1 \<longrightarrow>
        state_of (nextQuestion pg s) = s\<lparr>currentQuestion := currentQuestion s + 1\<rparr>)
   \<and> (canProceed s \<and> quizData s = JObject d \<and> questions d = Some qs
        \<and> int (length qs) - 1 \<le> currentQuestion s \<longrightarrow>
        state_of (nextQuestion pg s) =
          s\<lparr>isQuizCompleted := True,
            totalScore := fst (calculateScore s),
            effects := effects (state_of (nextQuestion pg s))\<rparr>
        \<and> (returned (nextQuestion pg s) \<longrightarrow>
             (\<exists>level. fst (getResultLevel s) = Some level
               \<and> effects (state_of (nextQuestion pg s)) =
                   effects s
                   @ (if has_tracker pg
                      then [TrackEvent_quiz_completed (toolName s) (fst (calculateScore s)) level
                              (length (answers s))]
                      else [])
                   @ [Announce (Quiz_completed level (fst (calculateScore s)))]))
        \<and> (\<forall>level. fst (getResultLevel s) = Some level \<and> has_quiz_container pg
               \<and> has_results_section pg \<and> displayResults pg d level \<longrightarrow>
             returned (nextQuestion pg s)))"
proof -
  have a: "nextQuestion pg s = Returned s" if "\<not> canProceed s"
    using that by (simp add: nextQuestion_def)
  have b: "state_of (nextQuestion pg s) = s\<lparr>currentQuestion := currentQuestion s + 1\<rparr>"
    if "canProceed s" and "quizData s = JObject d" and "questions d = Some qs"
      and "currentQuestion s < int (length qs) - 1"
    using that by (simp add: nextQuestion_def fields_of_def Let_def)
  have c: "nextQuestion pg s = completeQuiz pg s"
    if "canProceed s" and "quizData s = JObject d" and "questions d = Some qs"
      and "int (length qs) - 1 \<le> currentQuestion s"
    using that by (simp add: nextQuestion_def fields_of_def)
  have r: "returned (completeQuiz pg s)"
    if "quizData s = JObject d" and "fst (getResultLevel s) = Some level"
      and "has_quiz_container pg" and "has_results_section pg" and "displayResults pg d level"
    for level
    using that by (rule completeQuiz_returns)
  have last: "state_of (nextQuestion pg s) =
          s\<lparr>isQuizCompleted := True,
            totalScore := fst (calculateScore s),
            effects := effects (state_of (nextQuestion pg s))\<rparr>
        \<and> (returned (nextQuestion pg s) \<longrightarrow>
             (\<exists>level. fst (getResultLevel s) = Some level
               \<and> effects (state_of (nextQuestion pg s)) =
                   effects s
                   @ (if has_tracker pg
                      then [TrackEvent_quiz_completed (toolName s) (fst (calculateScore s)) level
                              (length (answers s))]
                      else [])
                   @ [Announce (Quiz_completed level (fst (calculateScore s)))]))
        \<and> (\<forall>level. fst (getResultLevel s) = Some level \<and> has_quiz_container pg
               \<and> has_results_section pg \<and> displayResults pg d level \<longrightarrow>
             returned (nextQuestion pg s))"
    if h: "canProceed s" "quizData s = JObject d" "questions d = Some qs"
      "int (length qs) - 1 \<le> currentQuestion s"
  proof -
    note eq = c[OF h]
    show ?thesis
      unfolding eq
      using r[OF h(2)] completeQuiz_state[of pg s] completeQuiz_effects[of pg s]
      by blast
  qed
  show ?thesis
    using a b last by blast
qed

theorem nextQuestion_steps_witness:
  "nextQuestion demo_page demo_engine = Returned demo_engine
   \<and> state_of (nextQuestion demo_page demo_answered0) = demo_answered0\<lparr>currentQuestion := 1\<rparr>
   \<and> returned (nextQuestion demo_page demo_answered1)
   \<and> isQuizCompleted (state_of (nextQuestion demo_page demo_answered1))
   \<and> totalScore (state_of (nextQuestion demo_page demo_answered1)) = Num 5
   \<and> effects (state_of (nextQuestion demo_page demo_answered1)) =
       effects demo_answered1
       @ [TrackEvent_quiz_completed ''flu'' (Num 5) Low 2, Announce (Quiz_completed Low (Num 5))]
   \<and> returned (nextQuestion (demo_page\<lparr>has_tracker := False\<rparr>) demo_answered1)
   \<and> effects (state_of (nextQuestion (demo_page\<lparr>has_tracker := False\<rparr>) demo_answered1)) =
       effects demo_answered1 @ [Announce (Quiz_completed Low (Num 5))]"
proof -
  have run: "nextQuestion demo_page demo_engine = Returned demo_engine
   \<and> state_of (nextQuestion demo_page demo_answered0) = demo_answered0\<lparr>currentQuestion := 1\<rparr>
   \<and> returned (nextQuestion demo_page demo_answered1)
   \<and> isQuizCompleted (state_of (nextQuestion demo_page demo_answered1))
   \<and> totalScore (state_of (nextQuestion demo_page demo_answered1)) = Num 5
   \<and> effects (state_of (nextQuestion demo_page demo_answered1)) =
       effects demo_answered1
       @ [TrackEvent_quiz_completed ''flu'' (Num 5) Low 2, Announce (Quiz_completed Low (Num 5))]
   \<and> returned (nextQuestion (demo_page\<lparr>has_tracker := False\<rparr>) demo_answered1)
   \<and> effects (state_of (nextQuestion (demo_page\<lparr>has_tracker := False\<rparr>) demo_answered1)) =
       effects demo_answered1 @ [Announce (Quiz_completed Low (Num 5))]"
    by (simp add: demo_answered0_value demo_answered1_value) (simp add: demo_defs engine_defs)
  from nextQuestion_steps[of demo_answered1 demo_page demo_doc "the (questions demo_doc)"]
    nextQuestion_steps[of demo_answered1 "demo_page\<lparr>has_tracker := False\<rparr>" demo_doc
      "the (questions demo_doc)"]
  show ?thesis
    by (simp only: run)
qed

text \<open>
  The claim as stated fails: on the completed sample session a further nextQuestion is
  not a no-op, it tracks and announces the completion a second time.
\<close>

theorem nextQuestion_after_completion_counterexample:
  "isQuizCompleted demo_completed
   \<and> nextQuestion demo_page demo_completed \<noteq> Returned demo_completed
   \<and> effects (state_of (nextQuestion demo_page demo_completed)) =
       effects demo_completed
       @ [TrackEvent_quiz_completed ''flu'' (Num 5) Low 2, Announce (Quiz_completed Low (Num 5))]"
  by (simp add: demo_completed_value) (simp add: demo_defs engine_defs)

text \<open>
  C5 (as amended). previousQuestion is a no-op when currentQuestion is 0; otherwise it
  decrements currentQuestion by 1 and changes no other field. The completion flag is
  neither consulted nor changed: on a completed session with currentQuestion above 0
  previousQuestion steps back as well.
\<close>

theorem previousQuestion_steps:
  "(currentQuestion s \<le> 0 \<longrightarrow> previousQuestion pg s = Returned s)
   \<and> (0 < currentQuestion s \<longrightarrow>
        state_of (previousQuestion pg s) = s\<lparr>currentQuestion := currentQuestion s - 1\<rparr>)
   \<and> isQuizCompleted (state_of (previousQuestion pg s)) = isQuizCompleted s
   \<and> (isQuizCompleted s \<and> 0 < currentQuestion s \<longrightarrow>
        currentQuestion (state_of (previousQuestion pg s)) = currentQuestion s - 1)"
  by (simp add: previousQuestion_def Let_def)

theorem previousQuestion_steps_witness:
  "previousQuestion demo_page demo_answered0 = Returned demo_answered0
   \<and> state_of (previousQuestion demo_page demo_answered1) = demo_answered1\<lparr>currentQuestion := 0\<rparr>
   \<and> isQuizCompleted (state_of (previousQuestion demo_page demo_completed))
   \<and> currentQuestion (state_of (previousQuestion demo_page demo_completed)) = 0"
  using previousQuestion_steps[of demo_answered0 demo_page]
    previousQuestion_steps[of demo_answered1 demo_page]
    previousQuestion_steps[of demo_completed demo_page]
  by (simp add: demo_answered0_value demo_answered1_value demo_completed_value)
     (simp add: demo_defs)

text \<open>
  The claim as stated fails: the completed sample session stands at question 1, and
  previousQuestion moves it to question 0.
\<close>

theorem previousQuestion_completed_counterexample:
  "isQuizCompleted demo_completed
   \<and> currentQuestion demo_completed = 1
   \<and> currentQuestion (state_of (previousQuestion demo_page demo_completed)) = 0
   \<and> previousQuestion demo_page demo_completed \<noteq> Returned demo_completed"
  by (simp add: demo_completed_value) (simp add: demo_defs engine_defs)

subsection \<open>Selecting an answer\<close>

lemma selectAnswer_unfold:
  assumes "question_attr b = Some attr"
  shows "selectAnswer pg (Some b) s =
     (let txt = (case text_content b of None \<Rightarrow> data_value b
                 | Some t \<Rightarrow> (if t = [] then data_value b else Some t));
          s1 = s\<lparr>answers := assign (answers s)
                   (js_add (parseInt (dataset_string attr)) (Num (- 1)))
                   \<lparr>ans_value = data_value b,
                    ans_weight = or_zero (parseInt (dataset_string (data_weight b))),
                    ans_text = txt\<rparr>\<rparr>
      in if has_next_btn pg
            \<and> (case fields_of (quizData s) of None \<Rightarrow> True | Some d \<Rightarrow> questions d = None)
         then Threw s1
         else (case fields_of (quizData s) of
                 None \<Rightarrow> Threw s1
               | Some d \<Rightarrow>
                   Returned (s1\<lparr>timers := (if autoAdvance d \<noteq> Some False then timers s + 1 else timers s),
                               effects := effects s @ [Announce (Selected txt)]\<rparr>)))"
  using assms
  by (simp add: selectAnswer_def updateNavigationButtons_def announceToScreenReader_def Let_def
      split: option.splits)

lemma selectScaleAnswer_unfold:
  assumes "question_attr b = Some attr"
  shows "selectScaleAnswer pg (Some b) s =
     (let s1 = s\<lparr>answers := assign (answers s)
                   (js_add (parseInt (dataset_string attr)) (Num (- 1)))
                   \<lparr>ans_value = data_value b,
                    ans_weight = or_zero (or_else (parseInt (dataset_string (data_weight b)))
                                                  (parseInt (dataset_string (data_value b)))),
                    ans_text = Some (''Scale: '' @ dataset_string (data_value b))\<rparr>\<rparr>
      in if has_next_btn pg
            \<and> (case fields_of (quizData s) of None \<Rightarrow> True | Some d \<Rightarrow> questions d = None)
         then Threw s1
         else Returned (s1\<lparr>effects := effects s @ [Announce (Selected_scale (data_value b))]\<rparr>))"
  using assms
  by (simp add: selectScaleAnswer_def updateNavigationButtons_def announceToScreenReader_def Let_def
      split: option.splits)

text \<open>
  C2 (as amended). The selection handlers take the question index from the button's
  question element and never compare it with currentQuestion. With the quiz data
  loaded, selectAnswer and selectScaleAnswer for any index j, the current one or not,
  return without an exception, write the answer under j (overwriting what was there),
  leave every other entry, currentQuestion and the completion flag unchanged; for j
  other than the current index canProceed is unchanged too. Here j is the number of
  the question element less 1, in double arithmetic; for a question number up to
  \<open>2 ^ 53\<close> that is the integer below it.
\<close>

theorem select_writes_any_index:
  assumes "quizData s = JObject d" and "questions d = Some qs"
    and "question_attr b = Some attr"
    and "js_add (parseInt (dataset_string attr)) (Num (- 1)) = j"
  shows "returned (selectAnswer pg (Some b) s) \<and> returned (selectScaleAnswer pg (Some b) s)
    \<and> (\<exists>a. map_of (answers (state_of (selectAnswer pg (Some b) s))) j = Some a
           \<and> ans_value a = data_value b
           \<and> ans_weight a = or_zero (parseInt (dataset_string (data_weight b))))
    \<and> (\<exists>a. map_of (answers (state_of (selectScaleAnswer pg (Some b) s))) j = Some a
           \<and> ans_value a = data_value b)
    \<and> (\<forall>k. k \<noteq> j \<longrightarrow>
           map_of (answers (state_of (selectAnswer pg (Some b) s))) k = map_of (answers s) k
         \<and> map_of (answers (state_of (selectScaleAnswer pg (Some b) s))) k = map_of (answers s) k)
    \<and> currentQuestion (state_of (selectAnswer pg (Some b) s)) = currentQuestion s
    \<and> currentQuestion (state_of (selectScaleAnswer pg (Some b) s)) = currentQuestion s
    \<and> isQuizCompleted (state_of (selectAnswer pg (Some b) s)) = isQuizCompleted s
    \<and> isQuizCompleted (state_of (selectScaleAnswer pg (Some b) s)) = isQuizCompleted s
    \<and> (j \<noteq> Num (currentQuestion s) \<longrightarrow>
           canProceed (state_of (selectAnswer pg (Some b) s)) = canProceed s
         \<and> canProceed (state_of (selectScaleAnswer pg (Some b) s)) = canProceed s)
    \<and> (\<forall>i. parseInt (dataset_string attr) = Num (i + 1) \<and> \<bar>i\<bar> < 2 ^ 53 \<longrightarrow> j = Num i)"
proof -
  have idx: "j = Num i" if "parseInt (dataset_string attr) = Num (i + 1)" and "\<bar>i\<bar> < 2 ^ 53" for i
    using that assms(4) by (simp add: round_double_exact)
  have key: "js_add (parseInt (dataset_string attr)) (Num (- 1)) = j"
    by (rule assms(4))
  have main: "returned (selectAnswer pg (Some b) s) \<and> returned (selectScaleAnswer pg (Some b) s)
    \<and> (\<exists>a. map_of (answers (state_of (selectAnswer pg (Some b) s))) j = Some a
           \<and> ans_value a = data_value b
           \<and> ans_weight a = or_zero (parseInt (dataset_string (data_weight b))))
    \<and> (\<exists>a. map_of (answers (state_of (selectScaleAnswer pg (Some b) s))) j = Some a
           \<and> ans_value a = data_value b)
    \<and> (\<forall>k. k \<noteq> j \<longrightarrow>
           map_of (answers (state_of (selectAnswer pg (Some b) s))) k = map_of (answers s) k
         \<and> map_of (answers (state_of (selectScaleAnswer pg (Some b) s))) k = map_of (answers s) k)
    \<and> currentQuestion (state_of (selectAnswer pg (Some b) s)) = currentQuestion s
    \<and> currentQuestion (state_of (selectScaleAnswer pg (Some b) s)) = currentQuestion s
    \<and> isQuizCompleted (state_of (selectAnswer pg (Some b) s)) = isQuizCompleted s
    \<and> isQuizCompleted (state_of (selectScaleAnswer pg (Some b) s)) = isQuizCompleted s
    \<and> (j \<noteq> Num (currentQuestion s) \<longrightarrow>
           canProceed (state_of (selectAnswer pg (Some b) s)) = canProceed s
         \<and> canProceed (state_of (selectScaleAnswer pg (Some b) s)) = canProceed s)"
    using assms(1,2)
    by (simp add: selectAnswer_unfold[OF assms(3)] selectScaleAnswer_unfold[OF assms(3)] key
        fields_of_def Let_def map_of_assign_same map_of_assign_other canProceed_def
        hasOwnProperty_def)
  show ?thesis
    using main idx by blast
qed

theorem select_writes_any_index_witness:
  "returned (selectAnswer demo_page (Some (demo_button ''2'' ''often'' ''2'')) demo_engine)
   \<and> currentQuestion (state_of (selectAnswer demo_page (Some (demo_button ''2'' ''often'' ''2'')) demo_engine)) = 0
   \<and> map_of (answers (state_of (selectScaleAnswer demo_page (Some (demo_button ''2'' ''3'' ''0'')) demo_engine)))
        (Num 1) = Some \<lparr>ans_value = Some ''3'', ans_weight = Num 3, ans_text = Some ''Scale: 3''\<rparr>"
  using select_writes_any_index[of demo_engine demo_doc "the (questions demo_doc)"
      "demo_button ''2'' ''often'' ''2''" "Some ''2''" "Num 1" demo_page]
  by (simp add: demo_defs engine_defs parse_defs)

text \<open>
  The claim as stated fails: with the session at question 0, a button of question
  element 2 (index 1) gets its answer stored under index 1.
\<close>

theorem select_other_index_counterexample:
  "currentQuestion demo_engine = 0
   \<and> map_of (answers demo_engine) (Num 1) = None
   \<and> map_of (answers (state_of (selectAnswer demo_page (Some (demo_button ''2'' ''often'' ''2'')) demo_engine)))
        (Num 1) = Some \<lparr>ans_value = Some ''often'', ans_weight = Num 2, ans_text = Some ''Sometimes''\<rparr>
   \<and> state_of (selectAnswer demo_page (Some (demo_button ''2'' ''often'' ''2'')) demo_engine) \<noteq> demo_engine"
  by (simp add: demo_defs engine_defs parse_defs)

subsection \<open>The auto-advance timer\<close>

lemma timers_completeQuiz: "timers (state_of (completeQuiz pg s)) = timers s"
  by (subst completeQuiz_state) simp

lemma timers_nextQuestion: "timers (state_of (nextQuestion pg s)) = timers s"
  by (simp add: nextQuestion_def Let_def timers_completeQuiz split: option.splits)

lemma timers_previousQuestion: "timers (state_of (previousQuestion pg s)) = timers s"
  by (simp add: previousQuestion_def Let_def)

lemma timers_restartQuiz: "timers (state_of (restartQuiz pg s)) = timers s"
  by (simp add: restartQuiz_def Let_def announceToScreenReader_def)

lemma timers_selectScaleAnswer: "timers (state_of (selectScaleAnswer pg btn s)) = timers s"
  by (simp add: selectScaleAnswer_def Let_def announceToScreenReader_def split: option.splits)

lemma timers_selectAnswer: "timers s \<le> timers (state_of (selectAnswer pg btn s))"
  by (simp add: selectAnswer_def Let_def announceToScreenReader_def split: option.splits)

lemma timers_selectAnswer_returned:
  assumes "returned (selectAnswer pg (Some b) s)" and "quizData s = JObject d"
    and "autoAdvance d \<noteq> Some False"
  shows "timers (state_of (selectAnswer pg (Some b) s)) = timers s + 1"
  using assms
  by (auto simp: selectAnswer_def Let_def announceToScreenReader_def fields_of_def
      split: option.splits if_splits)

text \<open>
  C7 (as amended). An auto-advance schedule is a plain setTimeout whose handle is
  dropped: nothing cancels it. restartQuiz, nextQuestion, previousQuestion and
  selectScaleAnswer leave the number of pending callbacks as it is, selectAnswer never
  lowers it and, when it returns with autoAdvance not false, adds one. A pending
  callback that fires while canProceed holds calls nextQuestion on the session as it
  is then, whatever state it was scheduled in.
\<close>

theorem timers_never_cancelled:
  "timers (state_of (restartQuiz pg s)) = timers s
   \<and> timers (state_of (nextQuestion pg s)) = timers s
   \<and> timers (state_of (previousQuestion pg s)) = timers s
   \<and> timers (state_of (selectScaleAnswer pg btn s)) = timers s
   \<and> timers s \<le> timers (state_of (selectAnswer pg btn s))
   \<and> (returned (selectAnswer pg (Some b) s) \<and> quizData s = JObject d \<and> autoAdvance d \<noteq> Some False \<longrightarrow>
        timers (state_of (selectAnswer pg (Some b) s)) = timers s + 1)
   \<and> (0 < timers s \<and> canProceed s \<longrightarrow>
        timer_fires pg s = Some (nextQuestion pg (s\<lparr>timers := timers s - 1\<rparr>)))"
proof -
  have fire: "timer_fires pg s = Some (nextQuestion pg (s\<lparr>timers := timers s - 1\<rparr>))"
    if "0 < timers s" and "canProceed s"
    using that by (simp add: timer_fires_def autoAdvance_callback_def canProceed_def)
  show ?thesis
    using fire timers_selectAnswer_returned[of pg b s d]
    by (simp add: timers_restartQuiz timers_nextQuestion timers_previousQuestion
        timers_selectScaleAnswer timers_selectAnswer)
qed

theorem timers_never_cancelled_witness:
  "timers demo_answered0 = 1
   \<and> timers (state_of (restartQuiz demo_page demo_answered0)) = 1
   \<and> timers (state_of (nextQuestion demo_page demo_answered0)) = 1
   \<and> timers (state_of (selectAnswer demo_page (Some (demo_button ''1'' ''never'' ''0'')) demo_answered0)) = 2
   \<and> timer_fires demo_page demo_answered0 = Some (Returned (demo_answered0\<lparr>currentQuestion := 1, timers := 0\<rparr>))"
proof -
  have run: "timers demo_answered0 = 1
   \<and> timers (state_of (restartQuiz demo_page demo_answered0)) = 1
   \<and> timers (state_of (nextQuestion demo_page demo_answered0)) = 1
   \<and> timers (state_of (selectAnswer demo_page (Some (demo_button ''1'' ''never'' ''0'')) demo_answered0)) = 2
   \<and> timer_fires demo_page demo_answered0 = Some (Returned (demo_answered0\<lparr>currentQuestion := 1, timers := 0\<rparr>))"
    by (simp add: demo_answered0_value) (simp add: demo_defs engine_defs parse_defs)
  from timers_never_cancelled[of demo_page demo_answered0 None "demo_button ''1'' ''never'' ''0''" demo_doc]
  show ?thesis
    by (simp only: run)
qed

text \<open>
  The claim as stated fails. In the sample run the callback scheduled by the answer to
  question 0 is still pending after the manual Next and after the answer to question
  1; when it fires there it completes the quiz. It is also still pending after a
  manual Previous from question 1, and firing then moves the session forward again.
\<close>

theorem stale_callback_counterexample:
  "timers demo_answered0 = 1
   \<and> currentQuestion demo_answered0 = 0
   \<and> timers demo_at1 = 1
   \<and> timers demo_answered1 = 1
   \<and> currentQuestion demo_answered1 = 1
   \<and> \<not> isQuizCompleted demo_answered1
   \<and> map_option (\<lambda>out. isQuizCompleted (state_of out)) (timer_fires demo_page demo_answered1) = Some True
   \<and> timers (state_of (previousQuestion demo_page demo_answered1)) = 1
   \<and> currentQuestion (state_of (previousQuestion demo_page demo_answered1)) = 0
   \<and> map_option (\<lambda>out. currentQuestion (state_of out))
        (timer_fires demo_page (state_of (previousQuestion demo_page demo_answered1))) = Some 1"
  by (simp add: demo_answered0_value demo_at1_value demo_answered1_value)
     (simp add: demo_defs engine_defs)



subsection \<open>Export\<close>

lemma exportResults_unfold:
  "exportResults now s =
     (if \<not> isQuizCompleted s then (Export_null, s)
      else
        let s2 = s\<lparr>totalScore := fst (calculateScore s)\<rparr> in
        case fst (getResultLevel s) of
          None \<Rightarrow> (Export_threw, s2)
        | Some level \<Rightarrow>
            (case fields_of (quizData s) of
               None \<Rightarrow> (Export_threw, s2)
             | Some d \<Rightarrow>
                 (case recommendations d of
                    None \<Rightarrow> (Export_threw, s2)
                  | Some recs \<Rightarrow>
                      (Export_result
                         \<lparr>r_tool = toolName s, r_score = totalScore s, r_level = level,
                          r_answers = answers s, r_completedAt = now,
                          r_recommendations = recs level\<rparr>, s2))))"
  by (simp add: exportResults_def Let_def split_def getResultLevel_state split: option.splits)

text \<open>
  C6 (as amended). exportResults returns null, and changes nothing, for every session
  that is not completed. On a completed session whose totalScore is the score of its
  answers, as completeQuiz leaves it, and whose quiz document has the scoring buckets
  low and moderate and the recommendations table, exportResults returns a snapshot
  and leaves the session as it is, and a second call returns the same snapshot but
  for completedAt: tool, score, level, answers and recommendations are equal. On a
  completed session with that totalScore and any document, the second call has the
  outcome of the first, a snapshot or the same failure. On every completed session
  two successive calls that return snapshots agree on tool, level, answers and
  recommendations.
\<close>

theorem exportResults_snapshots:
  "(\<not> isQuizCompleted s \<longrightarrow> exportResults now s = (Export_null, s))
   \<and> (isQuizCompleted s \<and> totalScore s = fst (calculateScore s)
        \<and> quizData s = JObject d \<and> scoring d = Some sc \<and> low sc = Some lo
        \<and> moderate sc = Some mo \<and> recommendations d = Some recs \<longrightarrow>
        (\<exists>level. fst (getResultLevel s) = Some level
           \<and> exportResults t1 s =
               (Export_result
                  \<lparr>r_tool = toolName s, r_score = totalScore s, r_level = level,
                   r_answers = answers s, r_completedAt = t1,
                   r_recommendations = recs level\<rparr>, s)
           \<and> exportResults t2 (snd (exportResults t1 s)) =
               (Export_result
                  \<lparr>r_tool = toolName s, r_score = totalScore s, r_level = level,
                   r_answers = answers s, r_completedAt = t2,
                   r_recommendations = recs level\<rparr>, s)))
   \<and> (isQuizCompleted s \<and> totalScore s = fst (calculateScore s) \<longrightarrow>
        snd (exportResults t1 s) = s
        \<and> fst (exportResults t2 (snd (exportResults t1 s))) =
            (case fst (exportResults t1 s) of
               Export_result r \<Rightarrow> Export_result (r\<lparr>r_completedAt := t2\<rparr>)
             | Export_null \<Rightarrow> Export_null
             | Export_threw \<Rightarrow> Export_threw))
   \<and> (\<forall>r1. fst (exportResults t1 s) = Export_result r1 \<longrightarrow>
        (\<exists>r2. fst (exportResults t2 (snd (exportResults t1 s))) = Export_result r2
           \<and> r_tool r2 = r_tool r1 \<and> r_level r2 = r_level r1 \<and> r_answers r2 = r_answers r1
           \<and> r_recommendations r2 = r_recommendations r1))"
proof -
  have null: "exportResults now s = (Export_null, s)" if "\<not> isQuizCompleted s"
    using that by (simp add: exportResults_def)
  have same: "s\<lparr>totalScore := fst (calculateScore s)\<rparr> = s"
    if f: "totalScore s = fst (calculateScore s)"
    using f by (metis engine.surjective engine.update_convs(5))
  have snapshot: "\<exists>level. fst (getResultLevel s) = Some level
           \<and> exportResults t1 s =
               (Export_result
                  \<lparr>r_tool = toolName s, r_score = totalScore s, r_level = level,
                   r_answers = answers s, r_completedAt = t1,
                   r_recommendations = recs level\<rparr>, s)
           \<and> exportResults t2 (snd (exportResults t1 s)) =
               (Export_result
                  \<lparr>r_tool = toolName s, r_score = totalScore s, r_level = level,
                   r_answers = answers s, r_completedAt = t2,
                   r_recommendations = recs level\<rparr>, s)"
    if c: "isQuizCompleted s" and f: "totalScore s = fst (calculateScore s)"
      and d: "quizData s = JObject d" "scoring d = Some sc" "low sc = Some lo"
        "moderate sc = Some mo" and r: "recommendations d = Some recs"
  proof -
    obtain level where lv: "fst (getResultLevel s) = Some level"
      using getResultLevel_value[OF d] by simp
    have e: "exportResults t s =
               (Export_result
                  \<lparr>r_tool = toolName s, r_score = totalScore s, r_level = level,
                   r_answers = answers s, r_completedAt = t,
                   r_recommendations = recs level\<rparr>, s)" for t
      using c lv d(1) r by (simp add: exportResults_unfold Let_def same[OF f] fields_of_def)
    show ?thesis
      using lv e by simp
  qed
  have fresh: "snd (exportResults t1 s) = s
        \<and> fst (exportResults t2 (snd (exportResults t1 s))) =
            (case fst (exportResults t1 s) of
               Export_result r \<Rightarrow> Export_result (r\<lparr>r_completedAt := t2\<rparr>)
             | Export_null \<Rightarrow> Export_null
             | Export_threw \<Rightarrow> Export_threw)"
    if c: "isQuizCompleted s" and f: "totalScore s = fst (calculateScore s)"
  proof -
    have st: "snd (exportResults t1 s) = s"
      using c same[OF f] by (simp add: exportResults_unfold Let_def split: option.splits)
    show ?thesis
      unfolding st using st c
      by (simp add: exportResults_unfold Let_def same[OF f] split: option.splits)
  qed
  have general: "\<exists>r2. fst (exportResults t2 (snd (exportResults t1 s))) = Export_result r2
           \<and> r_tool r2 = r_tool r1 \<and> r_level r2 = r_level r1 \<and> r_answers r2 = r_answers r1
           \<and> r_recommendations r2 = r_recommendations r1"
    if "fst (exportResults t1 s) = Export_result r1" for r1
    using that
    by (auto simp: exportResults_unfold Let_def split: option.splits if_splits)
  show ?thesis
    using null snapshot fresh general by blast
qed

theorem exportResults_snapshots_witness:
  "exportResults ''t0'' demo_engine = (Export_null, demo_engine)
   \<and> isQuizCompleted demo_completed
   \<and> totalScore demo_completed = fst (calculateScore demo_completed)
   \<and> snd (exportResults ''t1'' demo_completed) = demo_completed
   \<and> fst (exportResults ''t2'' (snd (exportResults ''t1'' demo_completed))) =
       Export_result \<lparr>r_tool = ''flu'', r_score = Num 5, r_level = Low,
                      r_answers = answers demo_completed, r_completedAt = ''t2'',
                      r_recommendations = Some [''Rest'']\<rparr>"
proof -
  have run: "exportResults ''t0'' demo_engine = (Export_null, demo_engine)
   \<and> isQuizCompleted demo_completed
   \<and> totalScore demo_completed = fst (calculateScore demo_completed)
   \<and> snd (exportResults ''t1'' demo_completed) = demo_completed
   \<and> fst (exportResults ''t2'' (snd (exportResults ''t1'' demo_completed))) =
       Export_result \<lparr>r_tool = ''flu'', r_score = Num 5, r_level = Low,
                      r_answers = answers demo_completed, r_completedAt = ''t2'',
                      r_recommendations = Some [''Rest'']\<rparr>"
    by (simp add: demo_completed_value) (simp add: demo_defs engine_defs)
  from exportResults_snapshots[of demo_completed "''t0''" demo_doc "the (scoring demo_doc)"
      "the (low (the (scoring demo_doc)))" "the (moderate (the (scoring demo_doc)))"
      "\<lambda>l. Some [''Rest'']" "''t1''" "''t2''"]
  show ?thesis
    by (intro run)
qed

lemma demo_reanswered_value:
  "demo_reanswered = demo_completed
     \<lparr>answers := [(Num 0, \<lparr>ans_value = Some ''always'', ans_weight = Num 9, ans_text = Some ''Sometimes''\<rparr>),
                  (Num 1, \<lparr>ans_value = Some ''3'', ans_weight = Num 3, ans_text = Some ''Scale: 3''\<rparr>)],
      timers := 2,
      effects := effects demo_completed @ [Announce (Selected (Some ''Sometimes''))]\<rparr>"
  by (simp add: demo_reanswered_def demo_completed_value) (simp add: demo_defs engine_defs parse_defs)

text \<open>
  The claim as stated fails on a completed session whose answers changed after the
  completion: the snapshot takes the score from the cached totalScore, and computing
  the level refreshes that cache. In the sample session, completed with score 5 and
  then answered again with weight 9, the first snapshot has score 5 and the second 12.
\<close>

theorem exportResults_stale_score_counterexample:
  "isQuizCompleted demo_reanswered
   \<and> (\<exists>r1 r2. fst (exportResults ''t1'' demo_reanswered) = Export_result r1
         \<and> fst (exportResults ''t2'' (snd (exportResults ''t1'' demo_reanswered))) = Export_result r2
         \<and> r_score r1 = Num 5 \<and> r_score r2 = Num 12 \<and> r_score r1 \<noteq> r_score r2)"
  by (simp add: demo_reanswered_value demo_completed_value) (simp add: demo_defs engine_defs)

subsection \<open>Loading\<close>

text \<open>
  C8. When the response is successful and parses to a document whose questions array
  is empty, loadQuizData fails with the error 'Invalid quiz data structure'. This
  value differs from the failures for an unreachable resource (the rejected fetch, the
  'HTTP error! status: ...' error of a response that is not ok) and from the
  SyntaxError of a document that does not parse. init catches it and starts no quiz:
  it installs no event listener and shows the error screen, and the engine stays as
  constructed, at question 0 without answers, not completed, with no timer pending.
\<close>

theorem loadQuizData_empty_questions:
  assumes "ok r" and "body r = Some (JObject d)" and "questions d = Some []"
  shows "fst (loadQuizData (Some r) s) = Some (Error ''Invalid quiz data structure'')
    \<and> Error ''Invalid quiz data structure'' \<noteq> Error (''HTTP error! status: '' @ st)
    \<and> Error ''Invalid quiz data structure'' \<noteq> SyntaxError
    \<and> Error ''Invalid quiz data structure'' \<noteq> TypeError
    \<and> fst (loadQuizData None s) = Some TypeError
    \<and> (\<not> ok r' \<longrightarrow> fst (loadQuizData (Some r') s) = Some (Error (''HTTP error! status: '' @ status r')))
    \<and> (ok r' \<and> body r' = None \<longrightarrow> fst (loadQuizData (Some r') s) = Some SyntaxError)
    \<and> \<not> listening (init pg (Some r) (new_SymptomChecker tool))
    \<and> effects (init pg (Some r) (new_SymptomChecker tool)) = [ShowError]
    \<and> currentQuestion (init pg (Some r) (new_SymptomChecker tool)) = 0
    \<and> answers (init pg (Some r) (new_SymptomChecker tool)) = []
    \<and> \<not> isQuizCompleted (init pg (Some r) (new_SymptomChecker tool))
    \<and> timers (init pg (Some r) (new_SymptomChecker tool)) = 0"
  using assms
  by (simp add: loadQuizData_def init_def new_SymptomChecker_def truthy_def fields_of_def Let_def)

theorem loadQuizData_empty_questions_witness:
  "fst (loadQuizData (Some demo_empty_response) (new_SymptomChecker ''flu''))
     = Some (Error ''Invalid quiz data structure'')
   \<and> \<not> listening (init demo_page (Some demo_empty_response) (new_SymptomChecker ''flu''))
   \<and> effects (init demo_page (Some demo_empty_response) (new_SymptomChecker ''flu'')) = [ShowError]
   \<and> listening (init demo_page
        (Some \<lparr>ok = True, status = ''200'', body = Some (JObject demo_doc)\<rparr>) (new_SymptomChecker ''flu''))"
  using loadQuizData_empty_questions[of demo_empty_response "demo_doc\<lparr>questions := Some []\<rparr>"
      "new_SymptomChecker ''flu''" "''404''" demo_empty_response demo_page "''flu''"]
  by (simp add: demo_empty_response_def) (simp add: demo_defs engine_defs)

end
